theory Spec2Isabelle
  imports Main "HOL-Library.Sublist"
begin

section \<open>Python strings\<close>

text \<open>
  A Python \<open>str\<close> is a sequence of Unicode code points, so a line is a list of
  natural numbers. \<open>str\<close> turns an Isabelle string literal into such a line.
\<close>

type_synonym pystr = "nat list"

definition str :: "string \<Rightarrow> pystr" where
  "str s = map of_char s"

text \<open>
  \<open>isspace\<close> is the set of code points that \<open>str.strip()\<close> removes when it is
  called without an argument: the ASCII ones (tab to carriage return, the four
  separators 0x1C to 0x1F, space) and the Unicode ones (U+0085, U+00A0, U+1680,
  U+2000 to U+200A, U+2028, U+2029, U+202F, U+205F, U+3000).
\<close>

definition isspace :: "nat \<Rightarrow> bool" where
  "isspace c =
     ((9 \<le> c \<and> c \<le> 13) \<or> (28 \<le> c \<and> c \<le> 32) \<or> c = 133 \<or> c = 160 \<or> c = 5760
      \<or> (8192 \<le> c \<and> c \<le> 8202) \<or> c = 8232 \<or> c = 8233 \<or> c = 8239 \<or> c = 8287
      \<or> c = 12288)"

definition strip :: "pystr \<Rightarrow> pystr" where
  "strip s = rev (dropWhile isspace (rev (dropWhile isspace s)))"

definition startswith :: "pystr \<Rightarrow> pystr \<Rightarrow> bool" where
  "startswith s p = prefix p s"

section \<open>The loop of \<open>resolve_conflict\<close>\<close>

text \<open>
  The variable \<open>mode\<close> of the source only ever holds one of the three strings
  \<open>"normal"\<close>, \<open>"head"\<close> and \<open>"skip"\<close>.
\<close>

datatype mode = Normal | Head | Skip

text \<open>
  The state of the loop: the mode, and what has been written to the output file so
  far, one entry for each call of \<open>f.write\<close>, in the order of the calls.
\<close>

record state =
  mode :: mode
  written :: "pystr list"

text \<open>
  One iteration of \<open>for line in lines\<close>. The three marker tests come first and end
  the iteration (\<open>continue\<close>) whatever the mode is; only a line that passes all
  three reaches the test of the mode and may be written.
\<close>

definition body :: "state \<Rightarrow> pystr \<Rightarrow> state" where
  "body st line =
     (if startswith (strip line) (str ''<<<<<<< HEAD'') then st\<lparr>mode := Head\<rparr>
      else if startswith (strip line) (str ''======='') then st\<lparr>mode := Skip\<rparr>
      else if startswith (strip line) (str ''>>>>>>>'') then st\<lparr>mode := Normal\<rparr>
      else if mode st = Normal \<or> mode st = Head then st\<lparr>written := written st @ [line]\<rparr>
      else st)"

text \<open>
  \<open>resolve_conflict\<close> takes the lines that \<open>f.readlines()\<close> returned for the input
  file and gives the lines written to the output file. The loop starts in mode
  \<open>"normal"\<close> with an empty file. Opening, reading and closing the two files is the
  only other thing the source does.
\<close>

definition init :: state where
  "init = \<lparr>mode = Normal, written = []\<rparr>"

definition resolve_conflict :: "pystr list \<Rightarrow> pystr list" where
  "resolve_conflict lines = written (foldl body init lines)"

section \<open>The contract of the specification\<close>

text \<open>
  The specification states its properties for a function
  \<open>resolve(lines, strategy) -> (resolvedLines, diagnostics)\<close>. These are the types of
  that contract, from the data model of the specification.
\<close>

datatype strategy = KeepLocal | KeepIncoming | KeepBase | KeepBoth

datatype diagnostic =
  ResolvedBlock nat nat
| MalformedMarker nat string
| UnterminatedBlock nat

text \<open>
  The source seen through that contract. \<open>resolve_conflict\<close> has no strategy
  parameter, so the strategy is not looked at; and it reports nothing besides the
  lines it writes (it returns no value, prints nothing and raises nothing in the
  loop), so its list of diagnostics is empty for every input.
\<close>

definition resolve :: "pystr list \<Rightarrow> strategy \<Rightarrow> pystr list \<times> diagnostic list" where
  "resolve lines strategy = (resolve_conflict lines, [])"

text \<open>
  The marker lines of the specification's classifier: after stripping, the line
  begins with one of the four sigils.
\<close>

definition sigil_line :: "pystr \<Rightarrow> bool" where
  "sigil_line line =
     (startswith (strip line) (str ''<<<<<<<'') \<or> startswith (strip line) (str ''|||||||'')
      \<or> startswith (strip line) (str ''======='') \<or> startswith (strip line) (str ''>>>>>>>''))"

section \<open>The tests of the loop, and the loop by structural recursion\<close>

text \<open>The three tests of the source, and the lines that pass one of them.\<close>

definition is_head :: "pystr \<Rightarrow> bool" where
  "is_head line = startswith (strip line) (str ''<<<<<<< HEAD'')"

definition is_sep :: "pystr \<Rightarrow> bool" where
  "is_sep line = startswith (strip line) (str ''======='')"

definition is_end :: "pystr \<Rightarrow> bool" where
  "is_end line = startswith (strip line) (str ''>>>>>>>'')"

definition recognized :: "pystr \<Rightarrow> bool" where
  "recognized line = (is_head line \<or> is_sep line \<or> is_end line)"

text \<open>
  The loop as two structurally recursive functions of the mode alone: the mode
  after a run of lines, and the lines written during it.
\<close>

fun final :: "mode \<Rightarrow> pystr list \<Rightarrow> mode" where
  "final m [] = m"
| "final m (l # ls) =
     (if is_head l then final Head ls
      else if is_sep l then final Skip ls
      else if is_end l then final Normal ls
      else final m ls)"

fun emit :: "mode \<Rightarrow> pystr list \<Rightarrow> pystr list" where
  "emit m [] = []"
| "emit m (l # ls) =
     (if is_head l then emit Head ls
      else if is_sep l then emit Skip ls
      else if is_end l then emit Normal ls
      else if m = Skip then emit m ls
      else l # emit m ls)"

text \<open>
  A description of the lines written that does not mention the mode: a line is kept
  when it passes none of the three tests and the nearest line before it that
  passes one, if there is any, is not a \<open>=======\<close> line. \<open>pre\<close> is the input
  before the line.
\<close>

definition kept :: "pystr list \<Rightarrow> pystr \<Rightarrow> bool" where
  "kept pre line =
     (\<not> recognized line \<and>
      (case find recognized (rev pre) of None \<Rightarrow> True | Some k \<Rightarrow> \<not> is_sep k))"

text \<open>
  The loop once more, as a relation between the state before the remaining lines
  and the state after them, with one rule for each path through the body of the
  loop: \<open>exec st lines st'\<close>. A later branch of the \<open>if\<close>/\<open>elif\<close> chain carries
  the failed tests of the earlier ones.
\<close>

inductive exec :: "state \<Rightarrow> pystr list \<Rightarrow> state \<Rightarrow> bool" where
  exec_done: "exec st [] st"
| exec_head:
    "startswith (strip line) (str ''<<<<<<< HEAD'') \<Longrightarrow>
     exec (st\<lparr>mode := Head\<rparr>) rest st' \<Longrightarrow> exec st (line # rest) st'"
| exec_sep:
    "\<not> startswith (strip line) (str ''<<<<<<< HEAD'') \<Longrightarrow>
     startswith (strip line) (str ''======='') \<Longrightarrow>
     exec (st\<lparr>mode := Skip\<rparr>) rest st' \<Longrightarrow> exec st (line # rest) st'"
| exec_end:
    "\<not> startswith (strip line) (str ''<<<<<<< HEAD'') \<Longrightarrow>
     \<not> startswith (strip line) (str ''======='') \<Longrightarrow>
     startswith (strip line) (str ''>>>>>>>'') \<Longrightarrow>
     exec (st\<lparr>mode := Normal\<rparr>) rest st' \<Longrightarrow> exec st (line # rest) st'"
| exec_write:
    "\<not> startswith (strip line) (str ''<<<<<<< HEAD'') \<Longrightarrow>
     \<not> startswith (strip line) (str ''======='') \<Longrightarrow>
     \<not> startswith (strip line) (str ''>>>>>>>'') \<Longrightarrow>
     mode st = Normal \<or> mode st = Head \<Longrightarrow>
     exec (st\<lparr>written := written st @ [line]\<rparr>) rest st' \<Longrightarrow> exec st (line # rest) st'"
| exec_drop:
    "\<not> startswith (strip line) (str ''<<<<<<< HEAD'') \<Longrightarrow>
     \<not> startswith (strip line) (str ''======='') \<Longrightarrow>
     \<not> startswith (strip line) (str ''>>>>>>>'') \<Longrightarrow>
     \<not> (mode st = Normal \<or> mode st = Head) \<Longrightarrow>
     exec st rest st' \<Longrightarrow> exec st (line # rest) st'"

section \<open>The loop and its two functions\<close>

lemma body_head: "is_head l \<Longrightarrow> body st l = st\<lparr>mode := Head\<rparr>"
  by (simp add: body_def is_head_def)

lemma head_not_sep: "is_head l \<Longrightarrow> \<not> is_sep l"
  by (auto simp: is_head_def is_sep_def startswith_def str_def prefix_def)

lemma head_not_end: "is_head l \<Longrightarrow> \<not> is_end l"
  by (auto simp: is_head_def is_end_def startswith_def str_def prefix_def)

lemma sep_not_end: "is_sep l \<Longrightarrow> \<not> is_end l"
  by (auto simp: is_sep_def is_end_def startswith_def str_def prefix_def)

lemma body_sep: "is_sep l \<Longrightarrow> body st l = st\<lparr>mode := Skip\<rparr>"
  using head_not_sep [of l] by (auto simp: body_def is_head_def is_sep_def)

lemma body_end: "is_end l \<Longrightarrow> body st l = st\<lparr>mode := Normal\<rparr>"
  using head_not_end [of l] sep_not_end [of l]
  by (auto simp: body_def is_head_def is_sep_def is_end_def)

lemma body_plain:
  "\<not> recognized l \<Longrightarrow>
   body st l = (if mode st = Skip then st else st\<lparr>written := written st @ [l]\<rparr>)"
  by (cases "mode st") (simp_all add: body_def recognized_def is_head_def is_sep_def is_end_def)

lemma foldl_body:
  "foldl body st ls = \<lparr>mode = final (mode st) ls, written = written st @ emit (mode st) ls\<rparr>"
proof (induction ls arbitrary: st)
  case Nil
  show ?case by simp
next
  case (Cons l ls)
  consider (h) "is_head l" | (s) "\<not> is_head l" "is_sep l"
    | (e) "\<not> is_head l" "\<not> is_sep l" "is_end l" | (p) "\<not> recognized l"
    by (auto simp: recognized_def)
  then show ?case
  proof cases
    case h
    then show ?thesis by (simp add: Cons.IH body_head)
  next
    case s
    then show ?thesis by (simp add: Cons.IH body_sep)
  next
    case e
    then show ?thesis by (simp add: Cons.IH body_end)
  next
    case p
    then have "\<not> is_head l" "\<not> is_sep l" "\<not> is_end l"
      by (simp_all add: recognized_def)
    with p show ?thesis by (simp add: Cons.IH body_plain)
  qed
qed

lemma resolve_conflict_emit: "resolve_conflict ls = emit Normal ls"
  by (simp add: resolve_conflict_def foldl_body init_def)

lemma head_sigil: "is_head l \<Longrightarrow> startswith (strip l) (str ''<<<<<<<'')"
  by (auto simp: is_head_def startswith_def str_def prefix_def)

lemma recognized_sigil: "recognized l \<Longrightarrow> sigil_line l"
  using head_sigil [of l] by (auto simp: recognized_def sigil_line_def is_sep_def is_end_def)

lemma emit_plain: "\<forall>l\<in>set ls. \<not> recognized l \<Longrightarrow> m \<noteq> Skip \<Longrightarrow> emit m ls = ls"
  by (induction ls) (auto simp: recognized_def)

lemma sigil_start_plain:
  "startswith (strip l) (str ''<<<<<<<'') \<Longrightarrow> \<not> is_sep l \<and> \<not> is_end l"
  by (auto simp: is_sep_def is_end_def startswith_def str_def prefix_def)

lemma emit_append: "emit m (xs @ ys) = emit m xs @ emit (final m xs) ys"
  by (induction xs arbitrary: m) simp_all

lemma final_append: "final m (xs @ ys) = final (final m xs) ys"
  by (induction xs arbitrary: m) simp_all

lemma emit_not_recognized: "l \<in> set (emit m ls) \<Longrightarrow> \<not> recognized l"
  by (induction ls arbitrary: m) (auto simp: recognized_def split: if_splits)

lemma emit_Skip: "\<forall>l\<in>set ls. \<not> is_head l \<and> \<not> is_end l \<Longrightarrow> emit Skip ls = []"
  by (induction ls) simp_all

lemma final_Skip: "\<forall>l\<in>set ls. \<not> is_head l \<and> \<not> is_end l \<Longrightarrow> final Skip ls = Skip"
  by (induction ls) simp_all

lemma emit_Head:
  "\<forall>l\<in>set ls. \<not> is_head l \<and> \<not> is_end l \<Longrightarrow>
   emit Head ls = takeWhile (\<lambda>l. \<not> is_sep l) ls"
  by (induction ls) (simp_all add: emit_Skip)

lemma emit_Skip_dropWhile:
  "emit Skip ls = emit Normal (dropWhile (\<lambda>l. \<not> is_head l \<and> \<not> is_end l) ls)"
  by (induction ls) (simp_all add: sep_not_end)

lemma subseq_emit: "subseq (emit m ls) ls"
  by (induction ls arbitrary: m) (simp_all add: list_emb_Cons)

lemma emit_idem: "emit Normal (emit m ls) = emit m ls"
  by (rule emit_plain) (auto dest: emit_not_recognized)

lemma written_foldl_body: "written (foldl body st ls) = written st @ emit (mode st) ls"
  by (simp add: foldl_body)

lemma mode_foldl_body: "mode (foldl body st ls) = final (mode st) ls"
  by (simp add: foldl_body)

subsection \<open>The mode after a prefix of the input\<close>

lemma final_last_marker:
  "final m pre =
     (case find recognized (rev pre) of None \<Rightarrow> m
      | Some k \<Rightarrow> if is_head k then Head else if is_sep k then Skip else Normal)"
proof (induction pre rule: rev_induct)
  case Nil
  show ?case by simp
next
  case (snoc x xs)
  show ?case
    by (simp add: final_append recognized_def snoc.IH)
qed

lemma final_Skip_iff:
  "final Normal pre = Skip \<longleftrightarrow>
     (case find recognized (rev pre) of None \<Rightarrow> False | Some k \<Rightarrow> is_sep k)"
  using head_not_sep by (auto simp: final_last_marker split: option.splits)

lemma emit_snoc: "emit Normal (xs @ [x]) = emit Normal xs @ (if kept xs x then [x] else [])"
proof -
  have "emit (final Normal xs) [x] = (if kept xs x then [x] else [])"
    using final_Skip_iff [of xs]
    by (auto simp: kept_def recognized_def split: option.splits)
  then show ?thesis by (simp add: emit_append)
qed

lemma comprehension_snoc:
  "[(xs @ [x]) ! i. i \<leftarrow> [0..<length (xs @ [x])], P (take i (xs @ [x])) ((xs @ [x]) ! i)]
   = [xs ! i. i \<leftarrow> [0..<length xs], P (take i xs) (xs ! i)] @ (if P xs x then [x] else [])"
proof -
  define F where
    "F = (\<lambda>i. if P (take i (xs @ [x])) ((xs @ [x]) ! i) then [(xs @ [x]) ! i] else [])"
  define G where "G = (\<lambda>i. if P (take i xs) (xs ! i) then [xs ! i] else [])"
  have fg: "map F [0..<length xs] = map G [0..<length xs]"
    by (rule map_cong [OF refl]) (simp add: F_def G_def nth_append)
  have fl: "F (length xs) = (if P xs x then [x] else [])"
    by (simp add: F_def)
  have "concat (map F [0..<length (xs @ [x])]) = concat (map F [0..<length xs]) @ F (length xs)"
    by simp
  also have "\<dots> = concat (map G [0..<length xs]) @ (if P xs x then [x] else [])"
    by (simp only: fg fl)
  finally show ?thesis
    unfolding F_def G_def .
qed

lemma emit_kept:
  "emit Normal ls = [ls ! i. i \<leftarrow> [0..<length ls], kept (take i ls) (ls ! i)]"
proof (induction ls rule: rev_induct)
  case Nil
  show ?case by simp
next
  case (snoc x xs)
  show ?case
    by (simp only: emit_snoc snoc.IH comprehension_snoc)
qed

subsection \<open>The relation and the loop\<close>

lemma exec_foldl: "exec st ls st' \<Longrightarrow> st' = foldl body st ls"
  by (induction rule: exec.induct) (simp_all add: body_def)

lemma foldl_exec: "exec st ls (foldl body st ls)"
proof (induction ls arbitrary: st)
  case Nil
  show ?case by (simp add: exec_done)
next
  case (Cons l ls)
  show ?case
    using Cons [of "body st l"]
    by (auto simp: body_def intro: exec.intros split: if_splits)
qed

lemmas line_defs =
  is_head_def is_sep_def is_end_def startswith_def strip_def isspace_def str_def

section \<open>Lines of the examples\<close>

lemma plain_a: "\<not> is_head (str ''a'')" "\<not> is_sep (str ''a'')" "\<not> is_end (str ''a'')"
  by (simp_all add: line_defs)

lemma plain_b: "\<not> is_head (str ''b'')" "\<not> is_sep (str ''b'')" "\<not> is_end (str ''b'')"
  by (simp_all add: line_defs)

lemma plain_local1:
  "\<not> is_head (str ''local1'')" "\<not> is_sep (str ''local1'')" "\<not> is_end (str ''local1'')"
  by (simp_all add: line_defs)

lemma plain_incoming1:
  "\<not> is_head (str ''incoming1'')" "\<not> is_sep (str ''incoming1'')"
  "\<not> is_end (str ''incoming1'')"
  by (simp_all add: line_defs)

lemma head_HEAD: "is_head (str ''<<<<<<< HEAD'')"
  by (simp add: line_defs)

lemma sep_equals: "\<not> is_head (str ''======='')" "is_sep (str ''======='')"
  by (simp_all add: line_defs)

lemma end_branch:
  "\<not> is_head (str ''>>>>>>> branch'')" "\<not> is_sep (str ''>>>>>>> branch'')"
  "is_end (str ''>>>>>>> branch'')"
  by (simp_all add: line_defs)

lemma plain_x: "\<not> is_head (str ''x'')" "\<not> is_sep (str ''x'')" "\<not> is_end (str ''x'')"
  by (simp_all add: line_defs)

lemma plain_y: "\<not> is_head (str ''y'')" "\<not> is_sep (str ''y'')" "\<not> is_end (str ''y'')"
  by (simp_all add: line_defs)

lemma base_line:
  "\<not> is_head (str ''||||||| base'')" "\<not> is_sep (str ''||||||| base'')"
  "\<not> is_end (str ''||||||| base'')" "sigil_line (str ''||||||| base'')"
  by (simp_all add: sigil_line_def line_defs)

lemma diff3_block:
  "resolve [str ''<<<<<<< HEAD'', str ''local1'', str ''||||||| base'', str ''b'',
            str ''======='', str ''incoming1'', str ''>>>>>>> branch''] KeepLocal
   = ([str ''local1'', str ''||||||| base'', str ''b''], [])"
  by (simp add: resolve_def resolve_conflict_emit plain_b plain_local1
        plain_incoming1 head_HEAD sep_equals end_branch base_line)

section \<open>The single block of the specification's example\<close>

text \<open>
  Claim C1, as the code has it. For the lines
  \<open>["a", "<<<<<<< HEAD", "local1", "=======", "incoming1", ">>>>>>> branch", "b"]\<close>
  the lines written are exactly \<open>["a", "local1", "b"]\<close>, which is what the
  specification asks of KeepLocal; the code reports no diagnostic, so the list of
  diagnostics is empty.
\<close>

theorem single_block_keep_local:
  "resolve [str ''a'', str ''<<<<<<< HEAD'', str ''local1'', str ''======='',
            str ''incoming1'', str ''>>>>>>> branch'', str ''b''] KeepLocal
   = ([str ''a'', str ''local1'', str ''b''], [])"
  by (simp add: resolve_def resolve_conflict_emit plain_a plain_b plain_local1
        plain_incoming1 head_HEAD sep_equals end_branch)

text \<open>
  Claim C1 as the specification states it fails on the code: the output is the one
  claimed, but the diagnostics are not \<open>[ResolvedBlock(1,5)]\<close>.
\<close>

theorem single_block_keep_local_counterexample:
  "\<not> (fst (resolve [str ''a'', str ''<<<<<<< HEAD'', str ''local1'', str ''======='',
                     str ''incoming1'', str ''>>>>>>> branch'', str ''b''] KeepLocal)
          = [str ''a'', str ''local1'', str ''b'']
        \<and> snd (resolve [str ''a'', str ''<<<<<<< HEAD'', str ''local1'', str ''======='',
                     str ''incoming1'', str ''>>>>>>> branch'', str ''b''] KeepLocal)
          = [ResolvedBlock 1 5])"
  by (simp add: resolve_def)

section \<open>Input without marker lines\<close>

text \<open>
  Claim C2. When no line of the input is a marker line of the specification (none
  begins, after stripping, with one of the four sigils), then for every strategy
  the lines written are the input itself and the list of diagnostics is empty.
\<close>

theorem pass_through:
  assumes "\<forall>l\<in>set lines. \<not> sigil_line l"
  shows "resolve lines strategy = (lines, [])"
proof -
  have "\<forall>l\<in>set lines. \<not> recognized l"
    using assms recognized_sigil by blast
  then have "emit Normal lines = lines"
    by (rule emit_plain) simp
  then show ?thesis
    by (simp add: resolve_def resolve_conflict_emit)
qed

theorem pass_through_witness:
  "\<not> sigil_line (str ''a'') \<and> \<not> sigil_line (str ''  x == y'' @ [10]) \<and>
   resolve [str ''a'', str ''  x == y'' @ [10]] KeepIncoming
     = ([str ''a'', str ''  x == y'' @ [10]], [])"
proof -
  have h: "\<not> sigil_line (str ''a'')" "\<not> sigil_line (str ''  x == y'' @ [10])"
    by (simp_all add: sigil_line_def line_defs)
  then have "\<forall>l\<in>set [str ''a'', str ''  x == y'' @ [10]]. \<not> sigil_line l"
    by simp
  from pass_through [OF this, of KeepIncoming] h show ?thesis
    by simp
qed

section \<open>Which lines start a block\<close>

lemma feature_line:
  "startswith (strip (str ''<<<<<<< feature'')) (str ''<<<<<<<'')"
  "\<not> startswith (strip (str ''<<<<<<< feature'')) (str ''<<<<<<< HEAD'')"
  "\<not> startswith (strip (str ''<<<<<<< feature'')) (str ''======='')"
  "\<not> startswith (strip (str ''<<<<<<< feature'')) (str ''>>>>>>>'')"
  by (simp_all add: line_defs)

text \<open>
  Claim C3, as the code has it. A line that begins, after stripping, with
  \<open><<<<<<< HEAD\<close> is consumed and sets the mode to \<open>head\<close>, in every mode and
  whatever follows \<open>HEAD\<close>. A line that begins with the sigil \<open><<<<<<<\<close> followed by
  anything else is not a marker for the code: the mode stays as it is, and the line
  is written unless the mode is \<open>skip\<close>.
\<close>

theorem start_marker_head_only:
  "(startswith (strip line) (str ''<<<<<<< HEAD'') \<longrightarrow> body st line = st\<lparr>mode := Head\<rparr>) \<and>
   (startswith (strip line) (str ''<<<<<<<'') \<and>
    \<not> startswith (strip line) (str ''<<<<<<< HEAD'') \<longrightarrow>
      body st line = (if mode st = Skip then st else st\<lparr>written := written st @ [line]\<rparr>))"
proof (intro conjI impI)
  assume "startswith (strip line) (str ''<<<<<<< HEAD'')"
  then show "body st line = st\<lparr>mode := Head\<rparr>"
    by (simp add: body_def)
next
  assume "startswith (strip line) (str ''<<<<<<<'') \<and>
    \<not> startswith (strip line) (str ''<<<<<<< HEAD'')"
  then have "\<not> recognized line"
    using sigil_start_plain [of line] by (simp add: recognized_def is_head_def)
  then show "body st line = (if mode st = Skip then st else st\<lparr>written := written st @ [line]\<rparr>)"
    by (rule body_plain)
qed

theorem start_marker_head_only_witness:
  "body \<lparr>mode = Skip, written = [str ''a'']\<rparr> (str ''<<<<<<< HEAD'')
     = \<lparr>mode = Head, written = [str ''a'']\<rparr> \<and>
   body \<lparr>mode = Normal, written = [str ''a'']\<rparr> (str ''<<<<<<< feature'')
     = \<lparr>mode = Normal, written = [str ''a'', str ''<<<<<<< feature'']\<rparr>"
  using
    start_marker_head_only [of "str ''<<<<<<< HEAD''" "\<lparr>mode = Skip, written = [str ''a'']\<rparr>"]
    start_marker_head_only [of "str ''<<<<<<< feature''" "\<lparr>mode = Normal, written = [str ''a'']\<rparr>"]
    head_HEAD feature_line
  by (simp add: is_head_def)

text \<open>
  Claim C3 as the specification states it fails on the code: the line
  \<open><<<<<<< feature\<close> begins with the sigil, and in mode \<open>normal\<close> the code does not
  enter a block on it but writes it.
\<close>

theorem start_marker_any_label_counterexample:
  "startswith (strip (str ''<<<<<<< feature'')) (str ''<<<<<<<'') \<and>
   mode (body init (str ''<<<<<<< feature'')) \<noteq> Head \<and>
   written (body init (str ''<<<<<<< feature'')) = [str ''<<<<<<< feature'']"
  by (simp add: feature_line body_def init_def)

section \<open>A \<open>=======\<close> line outside a block\<close>

text \<open>
  Claim C4, as the code has it. A line that begins, after stripping, with
  \<open>=======\<close> and is read in mode \<open>normal\<close> is a separator like any other: it is
  not written and the mode becomes \<open>skip\<close>. The lines after it are dropped up to
  the first line that begins with \<open><<<<<<< HEAD\<close> or \<open>>>>>>>>\<close>; from that line on
  the output is what the code writes for the rest of the input on its own. So the
  output is the output of the lines before the \<open>=======\<close> line followed by the
  output of that rest, and no diagnostic is produced.
\<close>

theorem separator_in_normal_mode:
  assumes "startswith (strip line) (str ''======='')"
    and "mode (foldl body init pre) = Normal"
  shows "foldl body init (pre @ [line]) = (foldl body init pre)\<lparr>mode := Skip\<rparr> \<and>
    resolve (pre @ line # post) strategy
      = (resolve_conflict pre @
         resolve_conflict
           (dropWhile (\<lambda>l. \<not> startswith (strip l) (str ''<<<<<<< HEAD'') \<and>
                           \<not> startswith (strip l) (str ''>>>>>>>'')) post), [])"
proof -
  have s: "is_sep line" using assms(1) by (simp add: is_sep_def)
  then have h: "\<not> is_head line" using head_not_sep by blast
  have "foldl body init (pre @ [line]) = (foldl body init pre)\<lparr>mode := Skip\<rparr>"
    using s by (simp add: body_sep)
  moreover have "emit Normal (pre @ line # post) = emit Normal pre @ emit Skip post"
    using s h by (simp add: emit_append)
  then have "resolve_conflict (pre @ line # post)
      = resolve_conflict pre @
        resolve_conflict
          (dropWhile (\<lambda>l. \<not> startswith (strip l) (str ''<<<<<<< HEAD'') \<and>
                          \<not> startswith (strip l) (str ''>>>>>>>'')) post)"
    using emit_Skip_dropWhile [of post]
    by (simp add: resolve_conflict_emit is_head_def is_end_def)
  ultimately show ?thesis by (simp add: resolve_def)
qed

theorem separator_in_normal_mode_witness:
  "foldl body init [str ''a'', str ''=======''] = \<lparr>mode = Skip, written = [str ''a'']\<rparr> \<and>
   resolve [str ''a'', str ''======='', str ''x'', str ''>>>>>>> branch'', str ''b''] KeepLocal
     = ([str ''a'', str ''b''], [])"
proof -
  have a: "startswith (strip (str ''======='')) (str ''======='')"
    using sep_equals by (simp add: is_sep_def)
  have b: "foldl body init [str ''a''] = \<lparr>mode = Normal, written = [str ''a'']\<rparr>"
    by (simp only: foldl_body) (simp add: init_def plain_a)
  then have c: "mode (foldl body init [str ''a'']) = Normal" by simp
  have d: "resolve_conflict [str ''a''] = [str ''a'']"
    by (simp add: resolve_conflict_emit plain_a)
  have e: "dropWhile (\<lambda>l. \<not> startswith (strip l) (str ''<<<<<<< HEAD'') \<and>
                          \<not> startswith (strip l) (str ''>>>>>>>''))
             [str ''x'', str ''>>>>>>> branch'', str ''b'']
           = [str ''>>>>>>> branch'', str ''b'']"
    using plain_x end_branch by (simp add: is_head_def is_end_def)
  have f: "resolve_conflict [str ''>>>>>>> branch'', str ''b''] = [str ''b'']"
    by (simp add: resolve_conflict_emit plain_b end_branch)
  from separator_in_normal_mode [OF a c, of "[str ''x'', str ''>>>>>>> branch'', str ''b'']" KeepLocal]
    b d e f show ?thesis
    by simp
qed

text \<open>
  Claim C4 as the specification states it fails on the code: after \<open>["a"]\<close> the
  mode is \<open>normal\<close>, and the \<open>=======\<close> line that follows is neither written nor
  reported.
\<close>

theorem separator_in_normal_mode_counterexample:
  "mode (foldl body init [str ''a'']) = Normal \<and>
   startswith (strip (str ''======='')) (str ''======='') \<and>
   str ''======='' \<notin> set (fst (resolve [str ''a'', str ''======='', str ''x''] KeepLocal)) \<and>
   snd (resolve [str ''a'', str ''======='', str ''x''] KeepLocal) = []"
proof -
  have "mode (foldl body init [str ''a'']) = Normal"
    by (simp only: mode_foldl_body) (simp add: init_def plain_a)
  moreover have "startswith (strip (str ''======='')) (str ''======='')"
    using sep_equals by (simp add: is_sep_def)
  moreover have "resolve [str ''a'', str ''======='', str ''x''] KeepLocal = ([str ''a''], [])"
    by (simp add: resolve_def resolve_conflict_emit plain_a plain_x sep_equals)
  moreover have "str ''======='' \<noteq> str ''a''"
    by (simp add: str_def)
  ultimately show ?thesis by simp
qed

section \<open>A block that is never closed\<close>

text \<open>
  Claim C5, as the code has it. When a \<open><<<<<<< HEAD\<close> line is followed by no
  further \<open><<<<<<< HEAD\<close> line and no \<open>>>>>>>>\<close> line, the output is what was
  written before that line, followed by the lines after it up to the first
  \<open>=======\<close> line (all of them when there is none). The \<open><<<<<<< HEAD\<close> line itself
  and everything from that \<open>=======\<close> line on are not written, and no diagnostic is
  produced.
\<close>

theorem unterminated_block:
  assumes "startswith (strip h) (str ''<<<<<<< HEAD'')"
    and "\<forall>l\<in>set rest. \<not> startswith (strip l) (str ''<<<<<<< HEAD'') \<and>
           \<not> startswith (strip l) (str ''>>>>>>>'')"
  shows "resolve (pre @ h # rest) strategy
    = (resolve_conflict pre @ takeWhile (\<lambda>l. \<not> startswith (strip l) (str ''======='')) rest, [])"
proof -
  have hd: "is_head h" using assms(1) by (simp add: is_head_def)
  have p: "\<forall>l\<in>set rest. \<not> is_head l \<and> \<not> is_end l"
    using assms(2) by (simp add: is_head_def is_end_def)
  have "emit Head rest = takeWhile (\<lambda>l. \<not> startswith (strip l) (str ''======='')) rest"
    using emit_Head [OF p] by (simp add: is_sep_def)
  then show ?thesis
    using hd by (simp add: resolve_def resolve_conflict_emit emit_append)
qed

theorem unterminated_block_witness:
  "resolve [str ''a'', str ''<<<<<<< HEAD'', str ''x'', str ''======='', str ''y''] KeepLocal
     = ([str ''a'', str ''x''], [])"
proof -
  have a: "startswith (strip (str ''<<<<<<< HEAD'')) (str ''<<<<<<< HEAD'')"
    using head_HEAD by (simp add: is_head_def)
  have b: "\<forall>l\<in>set [str ''x'', str ''======='', str ''y''].
      \<not> startswith (strip l) (str ''<<<<<<< HEAD'') \<and> \<not> startswith (strip l) (str ''>>>>>>>'')"
    using plain_x plain_y sep_equals sep_not_end [of "str ''=======''"]
    by (simp add: is_head_def is_end_def)
  have c: "takeWhile (\<lambda>l. \<not> startswith (strip l) (str ''======='')) [str ''x'', str ''======='', str ''y'']
     = [str ''x'']"
    using plain_x sep_equals by (simp add: is_sep_def)
  have d: "resolve_conflict [str ''a''] = [str ''a'']"
    by (simp add: resolve_conflict_emit plain_a)
  from unterminated_block [OF a b, of "[str ''a'']" KeepLocal] c d show ?thesis
    by simp
qed

text \<open>
  Claim C5 as the specification states it fails on the code: the input
  \<open>["a", "<<<<<<< HEAD", "x"]\<close> ends inside an open block, the marker line is not
  in the output, and there is no diagnostic.
\<close>

theorem unterminated_block_counterexample:
  "str ''<<<<<<< HEAD'' \<notin> set (fst (resolve [str ''a'', str ''<<<<<<< HEAD'', str ''x''] KeepLocal)) \<and>
   snd (resolve [str ''a'', str ''<<<<<<< HEAD'', str ''x''] KeepLocal) = []"
  using head_HEAD emit_not_recognized [of "str ''<<<<<<< HEAD''" Normal]
  by (auto simp: resolve_def resolve_conflict_emit recognized_def)

section \<open>The output is a subsequence of the input\<close>

text \<open>
  Claim C6, as the code has it. For every input and every strategy the output is
  a subsequence of the input: no line is reordered, changed or added. The lines
  written are, in their order, exactly the lines that pass none of the three tests
  and whose nearest preceding line passing one of them, if any, is not a
  \<open>=======\<close> line. So a line that follows a \<open>=======\<close> line is deleted also when
  that \<open>=======\<close> line stands outside any conflict block.
\<close>

theorem output_is_subsequence:
  "subseq (fst (resolve lines strategy)) lines \<and>
   fst (resolve lines strategy)
     = [lines ! i. i \<leftarrow> [0..<length lines], kept (take i lines) (lines ! i)]"
  using subseq_emit [of Normal lines] emit_kept [of lines]
  by (simp add: resolve_def resolve_conflict_emit)

text \<open>
  Claim C6 as the specification states it fails on the code: in
  \<open>["=======", "x"]\<close> no line begins with \<open><<<<<<<\<close>, so there is no conflict
  block at all and \<open>"x"\<close>, which is no marker line, is outside any block; the code
  does not write it.
\<close>

theorem lines_outside_blocks_counterexample:
  "\<not> startswith (strip (str ''======='')) (str ''<<<<<<<'') \<and>
   \<not> sigil_line (str ''x'') \<and>
   str ''x'' \<notin> set (fst (resolve [str ''======='', str ''x''] KeepLocal))"
proof -
  have "\<not> startswith (strip (str ''======='')) (str ''<<<<<<<'')"
    by (simp add: line_defs)
  moreover have "\<not> sigil_line (str ''x'')"
    by (simp add: sigil_line_def line_defs)
  moreover have "resolve [str ''======='', str ''x''] KeepLocal = ([], [])"
    by (simp add: resolve_def resolve_conflict_emit sep_equals plain_x)
  ultimately show ?thesis by simp
qed

section \<open>Skipping to the end of the file\<close>

text \<open>
  Claim C7. When a line begins, after stripping, with \<open>=======\<close> and no later line
  begins with \<open><<<<<<< HEAD\<close> or \<open>>>>>>>>\<close>, nothing after that line is written: the
  output is the output of the lines before it, and the mode is \<open>skip\<close> after that
  line and after every line that follows, up to the end of the input.
\<close>

theorem skip_until_end_of_file:
  assumes "startswith (strip line) (str ''======='')"
    and "\<forall>l\<in>set post. \<not> startswith (strip l) (str ''<<<<<<< HEAD'') \<and>
           \<not> startswith (strip l) (str ''>>>>>>>'')"
  shows "resolve_conflict (pre @ line # post) = resolve_conflict pre \<and>
    (\<forall>k\<le>length post. mode (foldl body init (pre @ line # take k post)) = Skip)"
proof -
  have s: "is_sep line" using assms(1) by (simp add: is_sep_def)
  then have h: "\<not> is_head line" using head_not_sep by blast
  have p: "\<forall>l\<in>set post. \<not> is_head l \<and> \<not> is_end l"
    using assms(2) by (simp add: is_head_def is_end_def)
  have "resolve_conflict (pre @ line # post) = resolve_conflict pre"
    using s h by (simp add: resolve_conflict_emit emit_append emit_Skip [OF p])
  moreover have "mode (foldl body init (pre @ line # take k post)) = Skip" for k
  proof -
    have "\<forall>l\<in>set (take k post). \<not> is_head l \<and> \<not> is_end l"
      using p by (meson in_set_takeD)
    then have "final Skip (take k post) = Skip"
      by (rule final_Skip)
    then show ?thesis
      using s h by (simp only: mode_foldl_body) (simp add: final_append)
  qed
  ultimately show ?thesis by simp
qed

theorem skip_until_end_of_file_witness:
  "resolve_conflict [str ''a'', str ''======='', str ''x'', str ''y''] = [str ''a''] \<and>
   mode (foldl body init [str ''a'', str ''======='', str ''x'', str ''y'']) = Skip"
proof -
  have a: "startswith (strip (str ''======='')) (str ''======='')"
    using sep_equals by (simp add: is_sep_def)
  have b: "\<forall>l\<in>set [str ''x'', str ''y'']. \<not> startswith (strip l) (str ''<<<<<<< HEAD'') \<and>
           \<not> startswith (strip l) (str ''>>>>>>>'')"
    using plain_x plain_y by (simp add: is_head_def is_end_def)
  have d: "resolve_conflict [str ''a''] = [str ''a'']"
    by (simp add: resolve_conflict_emit plain_a)
  note t = skip_until_end_of_file [OF a b, of "[str ''a'']"]
  from t have "\<forall>k\<le>length [str ''x'', str ''y''].
      mode (foldl body init ([str ''a''] @ str ''======='' # take k [str ''x'', str ''y''])) = Skip"
    by (rule conjunct2)
  then have "mode (foldl body init ([str ''a''] @ str ''======='' #
      take (length [str ''x'', str ''y'']) [str ''x'', str ''y''])) = Skip"
    by blast
  with t d show ?thesis
    by simp
qed

section \<open>Resolving the output again\<close>

text \<open>
  Claim C8, as the code has it. For every input, no line of the output passes one
  of the three tests of the code (none begins, after stripping, with
  \<open><<<<<<< HEAD\<close>, \<open>=======\<close> or \<open>>>>>>>>\<close>), and resolving the output again gives
  the output back. The output may still hold marker lines of the specification:
  lines that begin with \<open>|||||||\<close>, or with \<open><<<<<<<\<close> and another label.
\<close>

theorem resolve_idempotent:
  "(\<forall>l\<in>set (fst (resolve lines strategy)). \<not> recognized l) \<and>
   resolve (fst (resolve lines strategy)) strategy = resolve lines strategy"
  using emit_not_recognized [of _ Normal lines] emit_idem [of Normal lines]
  by (auto simp: resolve_def resolve_conflict_emit)

theorem resolve_idempotent_witness:
  "\<not> recognized (str ''local1'') \<and> \<not> recognized (str ''||||||| base'') \<and>
   \<not> recognized (str ''b'') \<and>
   resolve [str ''local1'', str ''||||||| base'', str ''b''] KeepLocal
     = ([str ''local1'', str ''||||||| base'', str ''b''], [])"
  using resolve_idempotent [of "[str ''<<<<<<< HEAD'', str ''local1'', str ''||||||| base'',
      str ''b'', str ''======='', str ''incoming1'', str ''>>>>>>> branch'']" KeepLocal]
  by (simp add: diff3_block)

text \<open>
  Claim C8 as the specification states it fails on the code: the output of a
  three-way block holds the base marker line \<open>||||||| base\<close>, a marker line of the
  specification.
\<close>

theorem output_without_markers_counterexample:
  "sigil_line (str ''||||||| base'') \<and>
   str ''||||||| base'' \<in> set (fst (resolve [str ''<<<<<<< HEAD'', str ''local1'',
      str ''||||||| base'', str ''b'', str ''======='', str ''incoming1'',
      str ''>>>>>>> branch''] KeepLocal))"
  by (simp add: diff3_block base_line)

section \<open>Determinism\<close>

text \<open>
  Claim C9. The loop, as a relation, has a final state for every input, and only
  one: two runs on the same lines end in the same state, so they write the same
  lines, and the result through the contract (the lines written and the empty
  list of diagnostics) is the same for the same lines and strategy.
\<close>

theorem resolve_deterministic:
  "(\<exists>st. exec init lines st) \<and>
   (\<forall>st1 st2. exec init lines st1 \<and> exec init lines st2 \<longrightarrow>
      st1 = st2 \<and> resolve lines strategy = (written st1, []))"
proof (intro conjI allI impI)
  show "\<exists>st. exec init lines st"
    using foldl_exec by blast
next
  fix st1 st2
  assume "exec init lines st1 \<and> exec init lines st2"
  then have "st1 = foldl body init lines" "st2 = foldl body init lines"
    by (simp_all add: exec_foldl)
  then show "st1 = st2" by simp
next
  fix st1 st2
  assume "exec init lines st1 \<and> exec init lines st2"
  then have "st1 = foldl body init lines"
    by (simp add: exec_foldl)
  then show "resolve lines strategy = (written st1, [])"
    by (simp add: resolve_def resolve_conflict_def)
qed

theorem resolve_deterministic_witness:
  "exec init [str ''a'', str ''======='', str ''b''] \<lparr>mode = Skip, written = [str ''a'']\<rparr> \<and>
   resolve [str ''a'', str ''======='', str ''b''] KeepBase = ([str ''a''], [])"
proof -
  have "foldl body init [str ''a'', str ''======='', str ''b'']
      = \<lparr>mode = Skip, written = [str ''a'']\<rparr>"
    by (simp only: foldl_body) (simp add: init_def plain_a plain_b sep_equals)
  then have "exec init [str ''a'', str ''======='', str ''b''] \<lparr>mode = Skip, written = [str ''a'']\<rparr>"
    using foldl_exec [of init "[str ''a'', str ''======='', str ''b'']"] by simp
  with resolve_deterministic [of "[str ''a'', str ''======='', str ''b'']" KeepBase]
  show ?thesis by auto
qed

section \<open>Marker lines are never written\<close>

text \<open>
  Claim C10. A line that begins, after stripping, with \<open><<<<<<< HEAD\<close>, \<open>=======\<close>
  or \<open>>>>>>>>\<close> is consumed in every state, also in mode \<open>normal\<close> outside any
  block: the iteration that reads it writes nothing, and the line is in the output
  of no input.
\<close>

theorem markers_always_consumed:
  assumes "startswith (strip line) (str ''<<<<<<< HEAD'') \<or>
    startswith (strip line) (str ''======='') \<or> startswith (strip line) (str ''>>>>>>>'')"
  shows "written (body st line) = written st \<and> line \<notin> set (fst (resolve lines strategy))"
proof -
  have r: "recognized line"
    using assms by (simp add: recognized_def is_head_def is_sep_def is_end_def)
  then have "written (body st line) = written st"
    using body_head [of line st] body_sep [of line st] body_end [of line st]
    by (auto simp: recognized_def)
  moreover have "line \<notin> set (emit Normal lines)"
    using r emit_not_recognized by blast
  ultimately show ?thesis by (simp add: resolve_def resolve_conflict_emit)
qed

theorem markers_always_consumed_witness:
  "written (body init (str ''>>>>>>> branch'')) = written init \<and>
   str ''>>>>>>> branch'' \<notin> set (fst (resolve [str ''a'', str ''>>>>>>> branch'', str ''b''] KeepBoth))"
proof -
  have "startswith (strip (str ''>>>>>>> branch'')) (str ''>>>>>>>'')"
    using end_branch by (simp add: is_end_def)
  then show ?thesis
    using markers_always_consumed [of "str ''>>>>>>> branch''" init
        "[str ''a'', str ''>>>>>>> branch'', str ''b'']" KeepBoth]
    by simp
qed

end
